theory Spec2Isabelle
  imports Main "HOL-Library.Sublist"
begin

section \<open>Data model of the chat view (ChatPage)\<close>

text \<open>
  JavaScript strings are modelled as \<open>string\<close>; a \<open>char\<close> stands for one code unit
  below 256. The values that can flow through the untyped response body are the JSON
  values plus \<open>undefined\<close>; the payload of a number plays no part in the code.
\<close>

datatype jsval =
    Undefined
  | JNull
  | JBool bool
  | JNum int
  | JStr string
  | JArr "jsval list"
  | JObj "(string \<times> jsval) list"

datatype role = User | Assistant

text \<open>\<open>interface Message\<close>; the field \<open>id\<close> is named \<open>id_m\<close> here.\<close>

record message =
  id_m :: string
  role :: role
  content :: jsval
  timestamp :: nat

text \<open>\<open>interface ChatError\<close>; \<open>"auth" | "server" | "network"\<close>.\<close>

datatype error_type = Auth | Server | Network

record chat_error =
  type :: error_type
  message :: string

text \<open>The four \<open>useState\<close> cells of \<open>ChatPage\<close>.\<close>

record chat_state =
  messages :: "message list"
  input :: string
  isLoading :: bool
  error :: "chat_error option"

section \<open>Configuration (authConfig)\<close>

definition loginRequest_scopes :: "string list" where
  "loginRequest_scopes = [''openid'', ''profile'', ''email'']"

definition apiConfig_chatEndpoint :: string where
  "apiConfig_chatEndpoint = ''/chat''"

section \<open>External collaborators\<close>

record account =
  username :: string

text \<open>
  Outcome of \<open>instance.acquireTokenSilent\<close>: the promise resolves with a result whose
  \<open>idToken\<close> is given, rejects with an \<open>InteractionRequiredAuthError\<close>, or rejects with
  anything else.
\<close>

datatype silent_result = SilentResolved string | InteractionRequiredAuthError | SilentOtherError

datatype popup_result = PopupResolved string | PopupRejected

text \<open>
  A \<open>Response\<close>: its \<open>ok\<close> and \<open>status\<close> properties, and what \<open>response.json()\<close>
  settles to (\<open>None\<close> when it rejects, as on a malformed body).
\<close>

record response =
  ok :: bool
  status :: nat
  json :: "jsval option"

datatype fetch_result = FetchRejected | FetchResolved response

text \<open>
  The second argument of \<open>fetch\<close>; \<open>http_method\<close> is its \<open>method\<close>. The body is the
  value handed to \<open>JSON.stringify\<close>.
\<close>

record request_init =
  http_method :: string
  headers :: "(string \<times> string) list"
  body :: jsval

text \<open>
  Everything one send attempt obtains from outside: the accounts of \<open>useMsal\<close>, the
  outcome of each external call (each is made at most once per attempt), the two values
  of \<open>crypto.randomUUID()\<close> and of \<open>new Date()\<close> in call order.
\<close>

record env =
  accounts :: "account list"
  acquireTokenSilent :: silent_result
  acquireTokenPopup :: popup_result
  fetch :: fetch_result
  randomUUID_1 :: string
  randomUUID_2 :: string
  Date_1 :: nat
  Date_2 :: nat

section \<open>Effects\<close>

text \<open>
  What the handlers do, in program order: calls of the state setters, calls to the
  identity library, the HTTP request, reading the body, logging and focusing.
  \<open>SetMessages\<close> carries the updater function passed to \<open>setMessages\<close>.
\<close>

datatype effect =
    SetError "chat_error option"
  | SetInput string
  | SetMessages "message list \<Rightarrow> message list"
  | SetIsLoading bool
  | AcquireTokenSilent "string list" account
  | AcquireTokenPopup "string list"
  | Fetch string request_init
  | ResponseJson
  | ConsoleError string
  | FocusInput
  | LogoutRedirect

text \<open>The state setters act on the current state; every other effect leaves it alone.\<close>

fun apply_effect :: "effect \<Rightarrow> chat_state \<Rightarrow> chat_state" where
  "apply_effect (SetError e) s = s\<lparr>error := e\<rparr>"
| "apply_effect (SetInput v) s = s\<lparr>input := v\<rparr>"
| "apply_effect (SetMessages f) s = s\<lparr>messages := f (messages s)\<rparr>"
| "apply_effect (SetIsLoading b) s = s\<lparr>isLoading := b\<rparr>"
| "apply_effect _ s = s"

definition after :: "effect list \<Rightarrow> chat_state \<Rightarrow> chat_state" where
  "after es s = fold apply_effect es s"

text \<open>Token acquisition and HTTP traffic.\<close>

fun is_token_acquisition :: "effect \<Rightarrow> bool" where
  "is_token_acquisition (AcquireTokenSilent _ _) = True"
| "is_token_acquisition (AcquireTokenPopup _) = True"
| "is_token_acquisition _ = False"

fun is_http :: "effect \<Rightarrow> bool" where
  "is_http (Fetch _ _) = True"
| "is_http ResponseJson = True"
| "is_http _ = False"

fun is_fetch :: "effect \<Rightarrow> bool" where
  "is_fetch (Fetch _ _) = True"
| "is_fetch _ = False"

definition is_network :: "effect \<Rightarrow> bool" where
  "is_network e = (is_token_acquisition e \<or> is_http e)"

section \<open>JavaScript primitives used by the code\<close>

text \<open>\<open>String.prototype.trim\<close>: white space and line terminators below 256.\<close>

definition isWhiteSpace :: "char \<Rightarrow> bool" where
  "isWhiteSpace c =
     (c \<in> set [CHR 0x09, CHR 0x0A, CHR 0x0B, CHR 0x0C, CHR 0x0D, CHR 0x20, CHR 0xA0])"

definition trim :: "string \<Rightarrow> string" where
  "trim str = rev (dropWhile isWhiteSpace (rev (dropWhile isWhiteSpace str)))"

text \<open>Decimal rendering of a non-negative integer, as a template literal does.\<close>

fun toString :: "nat \<Rightarrow> string" where
  "toString n =
     (if n < 10 then [''0123456789'' ! n]
      else toString (n div 10) @ [''0123456789'' ! (n mod 10)])"

text \<open>
  \<open>data.reply\<close>: reading a property of \<open>null\<close> or \<open>undefined\<close> throws a TypeError
  (\<open>None\<close>); an object yields the property or \<open>undefined\<close>; any other value has no
  such property.
\<close>

fun get_reply :: "jsval \<Rightarrow> jsval option" where
  "get_reply Undefined = None"
| "get_reply JNull = None"
| "get_reply (JObj kvs) =
     Some (case map_of kvs ''reply'' of None \<Rightarrow> Undefined | Some v \<Rightarrow> v)"
| "get_reply _ = Some Undefined"

section \<open>ChatPage\<close>

text \<open>\<open>const activeAccount = accounts[0]\<close>: \<open>undefined\<close> on an empty array.\<close>

definition activeAccount :: "env \<Rightarrow> account option" where
  "activeAccount env = (case accounts env of [] \<Rightarrow> None | a # _ \<Rightarrow> Some a)"

text \<open>\<open>acquireToken\<close>: the returned \<open>string | null\<close> and the effects, in order.\<close>

definition acquireToken :: "env \<Rightarrow> string option \<times> effect list" where
  "acquireToken env =
     (case activeAccount env of
        None \<Rightarrow> (None, [])
      | Some acct \<Rightarrow>
         (case acquireTokenSilent env of
            SilentResolved idToken \<Rightarrow>
              (Some idToken, [AcquireTokenSilent loginRequest_scopes acct])
          | InteractionRequiredAuthError \<Rightarrow>
              (case acquireTokenPopup env of
                 PopupResolved idToken \<Rightarrow>
                   (Some idToken,
                    [AcquireTokenSilent loginRequest_scopes acct,
                     AcquireTokenPopup loginRequest_scopes])
               | PopupRejected \<Rightarrow>
                   (None,
                    [AcquireTokenSilent loginRequest_scopes acct,
                     AcquireTokenPopup loginRequest_scopes,
                     ConsoleError ''Token acquisition failed:'',
                     SetError (Some \<lparr>type = Auth,
                       message = ''Authentication failed. Please sign in again.''\<rparr>)]))
          | SilentOtherError \<Rightarrow>
              (None,
               [AcquireTokenSilent loginRequest_scopes acct,
                ConsoleError ''Token acquisition error:''])))"

text \<open>The \<open>switch (response.status)\<close> of \<open>sendMessage\<close>.\<close>

definition status_error :: "nat \<Rightarrow> chat_error" where
  "status_error st =
     (if st = 401 then
        \<lparr>type = Auth, message = ''Session expired. Please sign in again.''\<rparr>
      else if st = 403 then
        \<lparr>type = Auth,
         message = ''Access denied. You don't have permission to use this service.''\<rparr>
      else if st = 500 then
        \<lparr>type = Server, message = ''Server error. Please try again later.''\<rparr>
      else
        \<lparr>type = Server, message = ''Request failed with status '' @ toString st\<rparr>)"

text \<open>
  The \<open>catch\<close> block. Its \<open>error\<close> is the constant captured by the closure, that is
  the error of the state \<open>sendMessage\<close> was created from; the setters called during
  the attempt do not change it.
\<close>

definition catch_block :: "chat_state \<Rightarrow> effect list" where
  "catch_block s =
     ConsoleError ''Chat error:'' #
     (if error s = None then
        [SetError (Some \<lparr>type = Network,
           message = ''Network error. Please check your connection.''\<rparr>)]
      else [])"

text \<open>
  The \<open>try\<close> block with its \<open>catch\<close>, for the trimmed input. \<open>!token\<close> holds
  of \<open>null\<close> and of the empty string.
\<close>

definition try_block :: "env \<Rightarrow> chat_state \<Rightarrow> string \<Rightarrow> effect list" where
  "try_block env s trimmedInput =
     (case acquireToken env of (token, es) \<Rightarrow>
        es @
        (case token of
           None \<Rightarrow> catch_block s
         | Some t \<Rightarrow>
             if t = [] then catch_block s
             else
               Fetch apiConfig_chatEndpoint
                 \<lparr>http_method = ''POST'',
                  headers = [(''Authorization'', ''Bearer '' @ t),
                             (''Content-Type'', ''application/json'')],
                  body = JObj [(''prompt'', JStr trimmedInput)]\<rparr> #
               (case fetch env of
                  FetchRejected \<Rightarrow> catch_block s
                | FetchResolved response \<Rightarrow>
                    if \<not> ok response then
                      [SetError (Some (status_error (status response)))]
                    else
                      ResponseJson #
                      (case json response of
                         None \<Rightarrow> catch_block s
                       | Some data \<Rightarrow>
                           (case get_reply data of
                              None \<Rightarrow> catch_block s
                            | Some reply \<Rightarrow>
                                [SetMessages (\<lambda>prev. prev @
                                   [\<lparr>id_m = randomUUID_2 env, role = Assistant,
                                     content = reply, timestamp = Date_2 env\<rparr>])])))))"

text \<open>
  \<open>sendMessage\<close>, called on the state \<open>s\<close> it was created from: the guard, the
  optimistic updates, the \<open>try\<close> block and the \<open>finally\<close> block.
\<close>

definition sendMessage :: "env \<Rightarrow> chat_state \<Rightarrow> effect list" where
  "sendMessage env s =
     (let trimmedInput = trim (input s) in
      if trimmedInput = [] \<or> isLoading s then []
      else
        [SetError None,
         SetInput [],
         SetMessages (\<lambda>prev. prev @
           [\<lparr>id_m = randomUUID_1 env, role = User,
             content = JStr trimmedInput, timestamp = Date_1 env\<rparr>]),
         SetIsLoading True] @
        try_block env s trimmedInput @
        [SetIsLoading False, FocusInput])"

text \<open>The other handlers of the view.\<close>

definition handleKeyDown :: "env \<Rightarrow> string \<Rightarrow> bool \<Rightarrow> chat_state \<Rightarrow> effect list" where
  "handleKeyDown env key shiftKey s =
     (if key = ''Enter'' \<and> \<not> shiftKey then sendMessage env s else [])"

definition handleLogout :: "effect list" where
  "handleLogout = [LogoutRedirect]"

definition onChange :: "string \<Rightarrow> effect list" where
  "onChange v = [SetInput v]"

datatype ui_event = ClickSend | KeyDown string bool | Change string | ClickSignOut

fun handle :: "env \<Rightarrow> ui_event \<Rightarrow> chat_state \<Rightarrow> effect list" where
  "handle env ClickSend s = sendMessage env s"
| "handle env (KeyDown key shiftKey) s = handleKeyDown env key shiftKey s"
| "handle env (Change v) s = onChange v"
| "handle env ClickSignOut s = handleLogout"

section \<open>Concrete states and environments\<close>

text \<open>The initial values of the four state cells, and states reached by typing.\<close>

definition s_initial :: chat_state where
  "s_initial = \<lparr>messages = [], input = [], isLoading = False, error = None\<rparr>"

definition s_hello :: chat_state where
  "s_hello = s_initial\<lparr>input := ''  hello ''\<rparr>"

definition s_blank :: chat_state where
  "s_blank = s_initial\<lparr>input := ''   ''\<rparr>"

definition s_busy :: chat_state where
  "s_busy = s_initial\<lparr>input := ''hello'', isLoading := True\<rparr>"

text \<open>A state with the error banner of an earlier failed attempt still on display.\<close>

definition s_stale :: chat_state where
  "s_stale = s_hello\<lparr>error := Some \<lparr>type = Network,
     message = ''Network error. Please check your connection.''\<rparr>\<rparr>"

text \<open>
  An environment in which everything succeeds, and variants of it: a response with a
  given non-success status, a rejected \<open>fetch\<close>, the outcomes of token acquisition.
\<close>

definition env_reply :: env where
  "env_reply =
     \<lparr>accounts = [\<lparr>username = ''alice''\<rparr>],
      acquireTokenSilent = SilentResolved ''tok'',
      acquireTokenPopup = PopupRejected,
      fetch = FetchResolved
        \<lparr>ok = True, status = 200, json = Some (JObj [(''reply'', JStr ''hello'')])\<rparr>,
      randomUUID_1 = ''u1'', randomUUID_2 = ''u2'', Date_1 = 1, Date_2 = 2\<rparr>"

definition env_status :: "nat \<Rightarrow> env" where
  "env_status st =
     env_reply\<lparr>fetch := FetchResolved \<lparr>ok = False, status = st, json = None\<rparr>\<rparr>"

definition env_offline :: env where
  "env_offline = env_reply\<lparr>fetch := FetchRejected\<rparr>"

definition env_popup_ok :: env where
  "env_popup_ok = env_reply\<lparr>acquireTokenSilent := InteractionRequiredAuthError,
     acquireTokenPopup := PopupResolved ''tok2''\<rparr>"

definition env_popup_fail :: env where
  "env_popup_fail = env_reply\<lparr>acquireTokenSilent := InteractionRequiredAuthError\<rparr>"

definition env_silent_other :: env where
  "env_silent_other = env_reply\<lparr>acquireTokenSilent := SilentOtherError\<rparr>"

definition env_no_account :: env where
  "env_no_account = env_reply\<lparr>accounts := []\<rparr>"

section \<open>Auxiliary facts\<close>

lemma after_Nil: "after [] s = s"
  by (simp add: after_def)

lemma after_Cons: "after (e # es) s = after es (apply_effect e s)"
  by (simp add: after_def)

lemma after_append: "after (xs @ ys) s = after ys (after xs s)"
  by (simp add: after_def)

lemma trim_hello: "trim ''  hello '' = ''hello''"
  by (simp add: trim_def isWhiteSpace_def)

lemma trim_blank: "trim ''   '' = []"
  by (simp add: trim_def isWhiteSpace_def)

lemma acquireToken_Some_effects:
  assumes "acquireToken env = (Some t, es)"
  shows "\<exists>acct. es = [AcquireTokenSilent loginRequest_scopes acct] \<or>
           es = [AcquireTokenSilent loginRequest_scopes acct, AcquireTokenPopup loginRequest_scopes]"
  using assms
  by (auto simp: acquireToken_def split: option.splits silent_result.splits popup_result.splits)

lemma acquireToken_Some_after:
  assumes "acquireToken env = (Some t, es)"
  shows "after es x = x"
  using acquireToken_Some_effects [OF assms] by (auto simp: after_def)

lemma catch_block_messages: "messages (after (catch_block s) x) = messages x"
  by (simp add: catch_block_def after_def)

lemma catch_block_no_fetch: "filter is_fetch (catch_block s) = []"
  by (simp add: catch_block_def)

lemma acquireToken_no_fetch: "filter is_fetch (snd (acquireToken env)) = []"
  by (simp add: acquireToken_def
      split: option.splits silent_result.splits popup_result.splits)

lemma acquireToken_keeps_messages:
  "e \<in> set (snd (acquireToken env)) \<Longrightarrow> messages (apply_effect e t) = messages t"
  by (auto simp: acquireToken_def
      split: option.splits silent_result.splits popup_result.splits)

lemma catch_block_keeps_messages:
  "e \<in> set (catch_block s) \<Longrightarrow> messages (apply_effect e t) = messages t"
  by (auto simp: catch_block_def split: if_splits)

lemma try_block_append_only:
  assumes "e \<in> set (try_block env s i)"
  shows "(\<forall>t. messages (apply_effect e t) = messages t) \<or>
         (\<exists>m. \<forall>t. messages (apply_effect e t) = messages t @ [m])"
proof (cases "acquireToken env")
  case (Pair token es)
  have es: "x \<in> set es \<Longrightarrow> messages (apply_effect x t) = messages t" for x t
    using acquireToken_keeps_messages [of x env t] Pair by simp
  show ?thesis
    using assms Pair
    by (auto simp: try_block_def es catch_block_keeps_messages
        split: option.splits if_splits fetch_result.splits)
qed

lemma sendMessage_append_only:
  assumes "e \<in> set (sendMessage env s)"
  shows "(\<forall>t. messages (apply_effect e t) = messages t) \<or>
         (\<exists>m. \<forall>t. messages (apply_effect e t) = messages t @ [m])"
  using assms try_block_append_only [of e env s "trim (input s)"]
  by (auto simp: sendMessage_def Let_def split: if_splits)

lemma after_prefix:
  assumes "\<And>e t. e \<in> set es \<Longrightarrow> prefix (messages t) (messages (apply_effect e t))"
  shows "prefix (messages t) (messages (after es t))"
  using assms
proof (induction es arbitrary: t)
  case Nil
  show ?case by (simp add: after_Nil)
next
  case (Cons e es)
  have "prefix (messages t) (messages (apply_effect e t))"
    using Cons.prems by simp
  moreover have "prefix (messages (apply_effect e t)) (messages (after es (apply_effect e t)))"
    using Cons.IH Cons.prems by simp
  ultimately have "prefix (messages t) (messages (after es (apply_effect e t)))"
    by (rule prefix_order.order_trans)
  then show ?case
    by (simp add: after_Cons)
qed

lemma sendMessage_effect_prefix:
  assumes "e \<in> set (sendMessage env s)"
  shows "prefix (messages t) (messages (apply_effect e t))"
  using sendMessage_append_only [OF assms] by auto

lemma catch_block_no_http: "filter is_http (catch_block s) = []"
  by (simp add: catch_block_def)

lemma acquireToken_no_http: "filter is_http (snd (acquireToken env)) = []"
  by (simp add: acquireToken_def
      split: option.splits silent_result.splits popup_result.splits)

section \<open>The guard of sendMessage\<close>

text \<open>
  C5: when the trimmed input is empty, or a send is already in flight, \<open>sendMessage\<close>
  (reached by the send button or by the Enter key) performs no effect at all: no state
  setter is called, so transcript, input, error and in-flight flag are unchanged, and
  no token acquisition or HTTP call is made.
\<close>

theorem guard_rejects_send:
  assumes "trim (input s) = [] \<or> isLoading s"
  shows "sendMessage env s = [] \<and> handle env ClickSend s = [] \<and>
         handle env (KeyDown ''Enter'' False) s = [] \<and>
         after (sendMessage env s) s = s"
  using assms by (auto simp: sendMessage_def handleKeyDown_def after_def)

theorem guard_rejects_send_witness:
  "(trim (input s_blank) = [] \<or> isLoading s_blank) \<and>
   (trim (input s_busy) = [] \<or> isLoading s_busy) \<and>
   sendMessage env_reply s_blank = [] \<and> sendMessage env_reply s_busy = [] \<and>
   after (sendMessage env_reply s_busy) s_busy = s_busy"
proof -
  have blank: "trim (input s_blank) = [] \<or> isLoading s_blank"
    by (simp add: s_blank_def s_initial_def trim_blank)
  have busy: "trim (input s_busy) = [] \<or> isLoading s_busy"
    by (simp add: s_busy_def s_initial_def)
  show ?thesis
    using blank busy guard_rejects_send [OF blank, of env_reply]
      guard_rejects_send [OF busy, of env_reply]
    by blast
qed

section \<open>Non-success responses\<close>

text \<open>
  C1: in a send attempt that obtains a token and receives a response that is not
  \<open>ok\<close>, the error at the end of the attempt is a function of the status alone:
  401 gives the authentication error with the session-expired text, 403 the
  authentication error with the access-denied text, 500 the server error with the generic
  text, any other status the server error whose message ends with the decimal status;
  the transcript gains the user message only, no assistant message.
\<close>

theorem http_error_mapping:
  assumes "trim (input s) \<noteq> []" and "\<not> isLoading s"
    and "acquireToken env = (Some t, es)" and "t \<noteq> []"
    and "fetch env = FetchResolved r" and "\<not> ok r"
  shows "error (after (sendMessage env s) s) = Some (status_error (status r)) \<and>
    (status r = 401 \<longrightarrow> error (after (sendMessage env s) s) =
       Some \<lparr>type = Auth, message = ''Session expired. Please sign in again.''\<rparr>) \<and>
    (status r = 403 \<longrightarrow> error (after (sendMessage env s) s) =
       Some \<lparr>type = Auth,
         message = ''Access denied. You don't have permission to use this service.''\<rparr>) \<and>
    (status r = 500 \<longrightarrow> error (after (sendMessage env s) s) =
       Some \<lparr>type = Server, message = ''Server error. Please try again later.''\<rparr>) \<and>
    (status r \<noteq> 401 \<and> status r \<noteq> 403 \<and> status r \<noteq> 500 \<longrightarrow>
       error (after (sendMessage env s) s) =
       Some \<lparr>type = Server,
         message = ''Request failed with status '' @ toString (status r)\<rparr>) \<and>
    messages (after (sendMessage env s) s) =
      messages s @ [\<lparr>id_m = randomUUID_1 env, role = User,
        content = JStr (trim (input s)), timestamp = Date_1 env\<rparr>]"
proof -
  have run: "after es x = x" for x
    using acquireToken_Some_after [OF assms(3)] .
  have "error (after (sendMessage env s) s) = Some (status_error (status r))"
    using assms by (simp add: sendMessage_def try_block_def Let_def after_append after_Cons after_Nil run)
  moreover have "messages (after (sendMessage env s) s) =
      messages s @ [\<lparr>id_m = randomUUID_1 env, role = User,
        content = JStr (trim (input s)), timestamp = Date_1 env\<rparr>]"
    using assms by (simp add: sendMessage_def try_block_def Let_def after_append after_Cons after_Nil run)
  ultimately show ?thesis
    by (simp add: status_error_def)
qed

theorem http_error_mapping_witness:
  "error (after (sendMessage (env_status 401) s_hello) s_hello) =
     Some \<lparr>type = Auth, message = ''Session expired. Please sign in again.''\<rparr> \<and>
   error (after (sendMessage (env_status 403) s_hello) s_hello) =
     Some \<lparr>type = Auth,
       message = ''Access denied. You don't have permission to use this service.''\<rparr> \<and>
   error (after (sendMessage (env_status 500) s_hello) s_hello) =
     Some \<lparr>type = Server, message = ''Server error. Please try again later.''\<rparr> \<and>
   error (after (sendMessage (env_status 418) s_hello) s_hello) =
     Some \<lparr>type = Server, message = ''Request failed with status 418''\<rparr> \<and>
   messages (after (sendMessage (env_status 418) s_hello) s_hello) =
     [\<lparr>id_m = ''u1'', role = User, content = JStr ''hello'', timestamp = 1\<rparr>]"
proof -
  have guard: "trim (input s_hello) \<noteq> []" "\<not> isLoading s_hello"
    by (simp_all add: s_hello_def s_initial_def trim_hello)
  have tok: "acquireToken (env_status st) =
      (Some ''tok'', [AcquireTokenSilent loginRequest_scopes \<lparr>username = ''alice''\<rparr>])" for st
    by (simp add: acquireToken_def activeAccount_def env_status_def env_reply_def)
  have resp: "fetch (env_status st) = FetchResolved \<lparr>ok = False, status = st, json = None\<rparr>"
    for st by (simp add: env_status_def)
  have nok: "\<not> ok \<lparr>ok = False, status = st, json = None\<rparr>" for st :: nat
    by simp
  have ne: "''tok'' \<noteq> []"
    by simp
  have vals: "trim (input s_hello) = ''hello''" "messages s_hello = []"
    "randomUUID_1 (env_status st) = ''u1''" "Date_1 (env_status st) = 1" for st
    by (simp_all add: s_hello_def s_initial_def trim_hello env_status_def env_reply_def)
  have digits: "toString 418 = ''418''"
    by simp
  note inst = http_error_mapping [OF guard tok ne resp nok]
  show ?thesis
    using inst [of 401] inst [of 403] inst [of 500] inst [of 418]
    by (simp add: vals digits status_error_def)
qed

section \<open>Token acquisition\<close>

text \<open>
  C7: with an active account, \<open>acquireToken\<close> first attempts silent acquisition for
  that account and returns its token when it succeeds; when it fails because interaction
  is required, the popup is attempted and its token returned on success; when the popup
  fails too, an authentication-class error is recorded and the result is none; any other
  silent failure gives none, with no popup attempt and no error recorded.
\<close>

theorem acquireToken_paths:
  assumes "activeAccount env = Some acct"
  shows
    "(acquireTokenSilent env = SilentResolved tok \<longrightarrow>
        acquireToken env = (Some tok, [AcquireTokenSilent loginRequest_scopes acct])) \<and>
     (acquireTokenSilent env = InteractionRequiredAuthError \<and>
      acquireTokenPopup env = PopupResolved tok \<longrightarrow>
        acquireToken env =
          (Some tok, [AcquireTokenSilent loginRequest_scopes acct,
                      AcquireTokenPopup loginRequest_scopes])) \<and>
     (acquireTokenSilent env = InteractionRequiredAuthError \<and>
      acquireTokenPopup env = PopupRejected \<longrightarrow>
        acquireToken env =
          (None, [AcquireTokenSilent loginRequest_scopes acct,
                  AcquireTokenPopup loginRequest_scopes,
                  ConsoleError ''Token acquisition failed:'',
                  SetError (Some \<lparr>type = Auth,
                    message = ''Authentication failed. Please sign in again.''\<rparr>)]) \<and>
        error (after (snd (acquireToken env)) s) =
          Some \<lparr>type = Auth,
            message = ''Authentication failed. Please sign in again.''\<rparr>) \<and>
     (acquireTokenSilent env = SilentOtherError \<longrightarrow>
        acquireToken env =
          (None, [AcquireTokenSilent loginRequest_scopes acct,
                  ConsoleError ''Token acquisition error:'']) \<and>
        after (snd (acquireToken env)) s = s)"
  using assms by (simp add: acquireToken_def after_def)

theorem acquireToken_paths_witness:
  "acquireToken env_reply =
     (Some ''tok'', [AcquireTokenSilent loginRequest_scopes \<lparr>username = ''alice''\<rparr>]) \<and>
   acquireToken env_popup_ok =
     (Some ''tok2'', [AcquireTokenSilent loginRequest_scopes \<lparr>username = ''alice''\<rparr>,
                      AcquireTokenPopup loginRequest_scopes]) \<and>
   fst (acquireToken env_popup_fail) = None \<and>
   error (after (snd (acquireToken env_popup_fail)) s_hello) =
     Some \<lparr>type = Auth, message = ''Authentication failed. Please sign in again.''\<rparr> \<and>
   fst (acquireToken env_silent_other) = None \<and>
   after (snd (acquireToken env_silent_other)) s_hello = s_hello"
proof -
  have acct: "activeAccount env_reply = Some \<lparr>username = ''alice''\<rparr>"
    "activeAccount env_popup_ok = Some \<lparr>username = ''alice''\<rparr>"
    "activeAccount env_popup_fail = Some \<lparr>username = ''alice''\<rparr>"
    "activeAccount env_silent_other = Some \<lparr>username = ''alice''\<rparr>"
    by (simp_all add: activeAccount_def env_reply_def env_popup_ok_def env_popup_fail_def
        env_silent_other_def)
  have outcome: "acquireTokenSilent env_reply = SilentResolved ''tok''"
    "acquireTokenSilent env_popup_ok = InteractionRequiredAuthError"
    "acquireTokenPopup env_popup_ok = PopupResolved ''tok2''"
    "acquireTokenSilent env_popup_fail = InteractionRequiredAuthError"
    "acquireTokenPopup env_popup_fail = PopupRejected"
    "acquireTokenSilent env_silent_other = SilentOtherError"
    by (simp_all add: env_reply_def env_popup_ok_def env_popup_fail_def env_silent_other_def)
  show ?thesis
    using acquireToken_paths [OF acct(1), of "''tok''" s_hello]
      acquireToken_paths [OF acct(2), of "''tok2''" s_hello]
      acquireToken_paths [OF acct(3), of "''tok''" s_hello]
      acquireToken_paths [OF acct(4), of "''tok''" s_hello]
    by (simp add: outcome after_def)
qed

section \<open>The HTTP request\<close>

text \<open>
  C8: a send attempt that passes the guard and obtains a non-empty token issues exactly
  one request: a POST to the configured chat endpoint \<open>/chat\<close>, with the header
  Authorization set to \<open>Bearer\<close>, a space and the token, the header Content-Type set to
  \<open>application/json\<close>, and the body \<open>{prompt: trimmed input}\<close>.
\<close>

theorem single_post_request:
  assumes "trim (input s) \<noteq> []" and "\<not> isLoading s"
    and "acquireToken env = (Some t, es)" and "t \<noteq> []"
  shows "filter is_fetch (sendMessage env s) =
      [Fetch apiConfig_chatEndpoint
         \<lparr>http_method = ''POST'',
          headers = [(''Authorization'', ''Bearer '' @ t),
                     (''Content-Type'', ''application/json'')],
          body = JObj [(''prompt'', JStr (trim (input s)))]\<rparr>] \<and>
    apiConfig_chatEndpoint = ''/chat''"
proof -
  have "filter is_fetch es = []"
    using acquireToken_no_fetch [of env] assms(3) by simp
  then show ?thesis
    using assms
    by (simp add: sendMessage_def try_block_def Let_def catch_block_no_fetch
        apiConfig_chatEndpoint_def
        split: fetch_result.splits option.splits)
qed

theorem single_post_request_witness:
  "filter is_fetch (sendMessage env_reply s_hello) =
     [Fetch ''/chat''
        \<lparr>http_method = ''POST'',
         headers = [(''Authorization'', ''Bearer tok''),
                    (''Content-Type'', ''application/json'')],
         body = JObj [(''prompt'', JStr ''hello'')]\<rparr>]"
proof -
  have guard: "trim (input s_hello) \<noteq> []" "\<not> isLoading s_hello"
    by (simp_all add: s_hello_def s_initial_def trim_hello)
  have tok: "acquireToken env_reply =
      (Some ''tok'', [AcquireTokenSilent loginRequest_scopes \<lparr>username = ''alice''\<rparr>])"
    by (simp add: acquireToken_def activeAccount_def env_reply_def)
  have ne: "''tok'' \<noteq> []"
    by simp
  have val: "trim (input s_hello) = ''hello''"
    by (simp add: s_hello_def s_initial_def trim_hello)
  show ?thesis
    using single_post_request [OF guard tok ne] by (simp add: val)
qed

section \<open>Success responses\<close>

text \<open>
  C6: when the response is \<open>ok\<close> and its parsed body is an object with a \<open>reply\<close>
  field, the transcript at the end of the attempt is the old transcript, the user message
  and exactly one assistant message whose content is that field's value. This holds
  from whatever state \<open>c\<close> is current when the setters act. The in-flight flag is set by
  the fourth effect and is false at the end of the attempt, whatever it was in \<open>c\<close>:
  the attempt itself clears it.
\<close>

theorem success_appends_reply:
  assumes "trim (input s) \<noteq> []" and "\<not> isLoading s"
    and "acquireToken env = (Some t, es)" and "t \<noteq> []"
    and "fetch env = FetchResolved r" and "ok r"
    and "json r = Some (JObj kvs)" and "map_of kvs ''reply'' = Some v"
  shows "messages (after (sendMessage env s) s) =
      messages s @
      [\<lparr>id_m = randomUUID_1 env, role = User,
        content = JStr (trim (input s)), timestamp = Date_1 env\<rparr>,
       \<lparr>id_m = randomUUID_2 env, role = Assistant,
        content = v, timestamp = Date_2 env\<rparr>] \<and>
    \<not> isLoading (after (sendMessage env s) s) \<and>
    messages (after (sendMessage env s) c) =
      messages c @
      [\<lparr>id_m = randomUUID_1 env, role = User,
        content = JStr (trim (input s)), timestamp = Date_1 env\<rparr>,
       \<lparr>id_m = randomUUID_2 env, role = Assistant,
        content = v, timestamp = Date_2 env\<rparr>] \<and>
    isLoading (after (take 4 (sendMessage env s)) c) \<and>
    \<not> isLoading (after (sendMessage env s) c)"
proof -
  have run: "after es x = x" for x
    using acquireToken_Some_after [OF assms(3)] .
  have at_s: "messages (after (sendMessage env s) s) =
      messages s @
      [\<lparr>id_m = randomUUID_1 env, role = User,
        content = JStr (trim (input s)), timestamp = Date_1 env\<rparr>,
       \<lparr>id_m = randomUUID_2 env, role = Assistant,
        content = v, timestamp = Date_2 env\<rparr>] \<and>
    \<not> isLoading (after (sendMessage env s) s)"
    using assms
    by (simp add: sendMessage_def try_block_def Let_def after_append after_Cons after_Nil run)
  have at_c: "messages (after (sendMessage env s) c) =
      messages c @
      [\<lparr>id_m = randomUUID_1 env, role = User,
        content = JStr (trim (input s)), timestamp = Date_1 env\<rparr>,
       \<lparr>id_m = randomUUID_2 env, role = Assistant,
        content = v, timestamp = Date_2 env\<rparr>]"
    using assms
    by (simp add: sendMessage_def try_block_def Let_def after_append after_Cons after_Nil run)
  have raised: "isLoading (after (take 4 (sendMessage env s)) c)"
    using assms(1,2) by (simp add: sendMessage_def Let_def after_Cons after_Nil)
  have cleared: "\<not> isLoading (after (sendMessage env s) c)"
    using assms
    by (simp add: sendMessage_def try_block_def Let_def after_append after_Cons after_Nil run)
  from at_s at_c raised cleared show ?thesis
    by simp
qed

theorem success_appends_reply_witness:
  "messages (after (sendMessage env_reply s_hello) s_hello) =
     [\<lparr>id_m = ''u1'', role = User, content = JStr ''hello'', timestamp = 1\<rparr>,
      \<lparr>id_m = ''u2'', role = Assistant, content = JStr ''hello'', timestamp = 2\<rparr>] \<and>
   \<not> isLoading (after (sendMessage env_reply s_hello) s_hello) \<and>
   isLoading (after (take 4 (sendMessage env_reply s_hello)) s_hello) \<and>
   isLoading s_busy \<and>
   \<not> isLoading (after (sendMessage env_reply s_hello) s_busy)"
proof -
  have guard: "trim (input s_hello) \<noteq> []" "\<not> isLoading s_hello"
    by (simp_all add: s_hello_def s_initial_def trim_hello)
  have tok: "acquireToken env_reply =
      (Some ''tok'', [AcquireTokenSilent loginRequest_scopes \<lparr>username = ''alice''\<rparr>])"
    by (simp add: acquireToken_def activeAccount_def env_reply_def)
  have ne: "''tok'' \<noteq> []"
    by simp
  have resp: "fetch env_reply = FetchResolved
      \<lparr>ok = True, status = 200, json = Some (JObj [(''reply'', JStr ''hello'')])\<rparr>"
    by (simp add: env_reply_def)
  have good: "ok \<lparr>ok = True, status = 200, json = Some (JObj [(''reply'', JStr ''hello'')])\<rparr>"
    by simp
  have parsed: "json \<lparr>ok = True, status = 200, json = Some (JObj [(''reply'', JStr ''hello'')])\<rparr>
      = Some (JObj [(''reply'', JStr ''hello'')])"
    by simp
  have field: "map_of [(''reply'', JStr ''hello'')] ''reply'' = Some (JStr ''hello'')"
    by simp
  have vals: "trim (input s_hello) = ''hello''" "messages s_hello = []"
    "randomUUID_1 env_reply = ''u1''" "Date_1 env_reply = 1"
    "randomUUID_2 env_reply = ''u2''" "Date_2 env_reply = 2"
    by (simp_all add: s_hello_def s_initial_def trim_hello env_reply_def)
  have busy: "isLoading s_busy"
    by (simp add: s_busy_def s_initial_def)
  note inst = success_appends_reply [OF guard tok ne resp good parsed field,
      unfolded vals append_Nil]
  from inst [where c = s_hello] inst [where c = s_busy] busy show ?thesis
    by blast
qed

section \<open>The optimistic updates of sendMessage\<close>

text \<open>
  C4: when the trimmed input is not empty and no send is in flight, the first four
  effects of \<open>sendMessage\<close> clear the error, clear the input field, append one
  user-role message whose content is the trimmed input to the end of the transcript and
  set the in-flight flag; none of them is a token acquisition or an HTTP call, which all
  come later. From the third effect on, the old transcript followed by that user message
  stays a prefix of the transcript, whatever the outcome; at the end the transcript is
  the old one, the user message and at most one assistant message.
\<close>

theorem send_optimistic_updates:
  assumes "trim (input s) \<noteq> []" and "\<not> isLoading s"
  shows
    "take 4 (sendMessage env s) =
       [SetError None, SetInput [],
        SetMessages (\<lambda>prev. prev @
          [\<lparr>id_m = randomUUID_1 env, role = User,
            content = JStr (trim (input s)), timestamp = Date_1 env\<rparr>]),
        SetIsLoading True] \<and>
     \<not> list_ex is_network (take 4 (sendMessage env s)) \<and>
     after (take 4 (sendMessage env s)) s =
       \<lparr>messages = messages s @
          [\<lparr>id_m = randomUUID_1 env, role = User,
            content = JStr (trim (input s)), timestamp = Date_1 env\<rparr>],
        input = [], isLoading = True, error = None\<rparr> \<and>
     (\<forall>n. 3 \<le> n \<longrightarrow>
        prefix (messages s @
            [\<lparr>id_m = randomUUID_1 env, role = User,
              content = JStr (trim (input s)), timestamp = Date_1 env\<rparr>])
          (messages (after (take n (sendMessage env s)) s))) \<and>
     (messages (after (sendMessage env s) s) =
        messages s @
          [\<lparr>id_m = randomUUID_1 env, role = User,
            content = JStr (trim (input s)), timestamp = Date_1 env\<rparr>] \<or>
      (\<exists>am. role am = Assistant \<and>
         messages (after (sendMessage env s) s) =
           messages s @
             [\<lparr>id_m = randomUUID_1 env, role = User,
               content = JStr (trim (input s)), timestamp = Date_1 env\<rparr>, am]))"
proof -
  let ?um = "\<lparr>id_m = randomUUID_1 env, role = User,
    content = JStr (trim (input s)), timestamp = Date_1 env\<rparr>"
  let ?pre = "[SetError None, SetInput [], SetMessages (\<lambda>prev. prev @ [?um])]"
  let ?rest = "SetIsLoading True # try_block env s (trim (input s)) @
    [SetIsLoading False, FocusInput]"
  have trace: "sendMessage env s = ?pre @ ?rest"
    using assms by (simp add: sendMessage_def Let_def)
  have first: "take 4 (sendMessage env s) = ?pre @ [SetIsLoading True]"
    by (simp add: trace)
  have quiet: "\<not> list_ex is_network (take 4 (sendMessage env s))"
    by (simp add: first is_network_def)
  have state: "after (take 4 (sendMessage env s)) s =
      \<lparr>messages = messages s @ [?um], input = [], isLoading = True, error = None\<rparr>"
    by (simp add: first after_def)
  have kept: "prefix (messages s @ [?um]) (messages (after (take n (sendMessage env s)) s))"
    if "3 \<le> n" for n
  proof -
    have "take n (?pre @ ?rest) = take n ?pre @ take (n - length ?pre) ?rest"
      by (rule take_append)
    moreover have "take n ?pre = ?pre"
      using that by (intro take_all) simp
    moreover have "length ?pre = 3"
      by simp
    ultimately have split: "take n (sendMessage env s) = ?pre @ take (n - 3) ?rest"
      by (simp only: trace)
    have base: "messages (after ?pre s) = messages s @ [?um]"
      by (simp add: after_def)
    have "prefix (messages t) (messages (apply_effect e t))"
      if "e \<in> set (take (n - 3) ?rest)" for e t
    proof -
      have "e \<in> set ?rest"
        using that by (rule in_set_takeD)
      then have "e \<in> set (sendMessage env s)"
        by (simp add: trace)
      then show ?thesis
        by (rule sendMessage_effect_prefix)
    qed
    then have "prefix (messages (after ?pre s))
        (messages (after (take (n - 3) ?rest) (after ?pre s)))"
      by (rule after_prefix)
    then show ?thesis
      by (simp only: split after_append base)
  qed
  have final: "messages (after (sendMessage env s) s) = messages s @ [?um] \<or>
      (\<exists>am. role am = Assistant \<and>
         messages (after (sendMessage env s) s) = messages s @ [?um, am])"
  proof (cases "acquireToken env")
    case (Pair token es)
    have es: "messages (after es x) = messages x" for x
    proof -
      have "prefix (messages x) (messages (after es x)) \<and>
          messages (after es x) = messages x"
        using Pair
        by (auto simp: acquireToken_def after_def
            split: option.splits silent_result.splits popup_result.splits)
      then show ?thesis ..
    qed
    show ?thesis
      using Pair
      by (auto simp: trace try_block_def after_append after_Cons after_Nil es
          catch_block_messages
          split: option.splits fetch_result.splits)
  qed
  from first quiet state kept final show ?thesis
    by simp
qed

theorem send_optimistic_updates_witness:
  "trim (input s_hello) \<noteq> [] \<and> \<not> isLoading s_hello \<and>
   after (take 4 (sendMessage env_offline s_hello)) s_hello =
     \<lparr>messages =
        [\<lparr>id_m = ''u1'', role = User, content = JStr ''hello'', timestamp = 1\<rparr>],
      input = [], isLoading = True, error = None\<rparr> \<and>
   \<not> list_ex is_network (take 4 (sendMessage env_offline s_hello)) \<and>
   (3::nat) \<le> 6 \<and>
   prefix [\<lparr>id_m = ''u1'', role = User, content = JStr ''hello'', timestamp = 1\<rparr>]
     (messages (after (take 6 (sendMessage env_offline s_hello)) s_hello))"
proof -
  have guard: "trim (input s_hello) \<noteq> []" "\<not> isLoading s_hello"
    by (simp_all add: s_hello_def s_initial_def trim_hello)
  have vals: "trim (input s_hello) = ''hello''" "messages s_hello = []"
    "randomUUID_1 env_offline = ''u1''" "Date_1 env_offline = 1"
    by (simp_all add: s_hello_def s_initial_def trim_hello env_offline_def env_reply_def)
  have six: "(3::nat) \<le> 6"
    by simp
  note inst = send_optimistic_updates [OF guard, of env_offline, unfolded vals append_Nil]
  from inst have "prefix
      [\<lparr>id_m = ''u1'', role = User, content = JStr ''hello'', timestamp = 1\<rparr>]
      (messages (after (take 6 (sendMessage env_offline s_hello)) s_hello))"
    using six by blast
  with inst guard six show ?thesis
    by blast
qed

section \<open>The transcript\<close>

text \<open>
  C9: the transcript is append-only. Whatever the handler (send button, key press,
  typing, sign-out) and whatever the outcome, each of its effects either leaves the
  message list of the current state as it is or appends exactly one message to its end,
  the existing messages staying as they are and in place; so the list before a handler
  runs is a prefix of the list after it.
\<close>

theorem transcript_append_only:
  "(\<forall>e \<in> set (handle env ev s).
      (\<forall>t. messages (apply_effect e t) = messages t) \<or>
      (\<exists>m. \<forall>t. messages (apply_effect e t) = messages t @ [m])) \<and>
   prefix (messages t) (messages (after (handle env ev s) t))"
proof -
  have step: "(\<forall>t. messages (apply_effect e t) = messages t) \<or>
      (\<exists>m. \<forall>t. messages (apply_effect e t) = messages t @ [m])"
    if "e \<in> set (handle env ev s)" for e
    using that sendMessage_append_only [of e env s]
    by (cases ev) (auto simp: handleKeyDown_def handleLogout_def onChange_def split: if_splits)
  have "prefix (messages t) (messages (apply_effect e t))"
    if "e \<in> set (handle env ev s)" for e t
    using step [OF that] by auto
  then have "prefix (messages t) (messages (after (handle env ev s) t))"
    by (rule after_prefix)
  with step show ?thesis
    by blast
qed

theorem transcript_append_only_witness:
  "SetMessages (\<lambda>prev. prev @
      [\<lparr>id_m = ''u1'', role = User, content = JStr ''hello'', timestamp = 1\<rparr>])
     \<in> set (handle env_reply ClickSend s_hello) \<and>
   messages (after (handle env_reply ClickSend s_hello) s_hello) =
     [\<lparr>id_m = ''u1'', role = User, content = JStr ''hello'', timestamp = 1\<rparr>,
      \<lparr>id_m = ''u2'', role = Assistant, content = JStr ''hello'', timestamp = 2\<rparr>] \<and>
   prefix (messages s_hello) (messages (after (handle env_reply ClickSend s_hello) s_hello))"
proof -
  have trace: "sendMessage env_reply s_hello =
     [SetError None, SetInput [],
      SetMessages (\<lambda>prev. prev @
        [\<lparr>id_m = ''u1'', role = User, content = JStr ''hello'', timestamp = 1\<rparr>]),
      SetIsLoading True,
      AcquireTokenSilent loginRequest_scopes \<lparr>username = ''alice''\<rparr>,
      Fetch ''/chat''
        \<lparr>http_method = ''POST'',
         headers = [(''Authorization'', ''Bearer tok''),
                    (''Content-Type'', ''application/json'')],
         body = JObj [(''prompt'', JStr ''hello'')]\<rparr>,
      ResponseJson,
      SetMessages (\<lambda>prev. prev @
        [\<lparr>id_m = ''u2'', role = Assistant, content = JStr ''hello'', timestamp = 2\<rparr>]),
      SetIsLoading False, FocusInput]"
    by (simp add: sendMessage_def try_block_def acquireToken_def activeAccount_def
        apiConfig_chatEndpoint_def env_reply_def s_hello_def s_initial_def trim_hello Let_def)
  have start: "messages s_hello = []"
    by (simp add: s_hello_def s_initial_def)
  show ?thesis
    using transcript_append_only [of env_reply ClickSend s_hello s_hello]
    by (simp add: trace start after_def)
qed

section \<open>Attempts without a token\<close>

text \<open>
  C2, as stated, fails: with an active account, a silent acquisition that fails for
  another reason than required interaction, and no error on display, the token is none
  and the error at the end of the attempt is the network-class one, not an
  authentication-class one.
\<close>

theorem no_token_error_class_counterexample:
  "trim (input s_hello) \<noteq> [] \<and> \<not> isLoading s_hello \<and>
   fst (acquireToken env_silent_other) = None \<and>
   error (after (sendMessage env_silent_other s_hello) s_hello) =
     Some \<lparr>type = Network, message = ''Network error. Please check your connection.''\<rparr> \<and>
   map_option type (error (after (sendMessage env_silent_other s_hello) s_hello)) \<noteq>
     Some Auth"
  by (simp add: sendMessage_def try_block_def catch_block_def acquireToken_def
      activeAccount_def env_silent_other_def env_reply_def s_hello_def s_initial_def
      trim_hello after_def Let_def)

text \<open>
  C2, amended: in a send attempt whose token acquisition returns none, no HTTP request
  is issued and no body is read; when acquisition recorded no error of its own (there is
  no active account, or silent acquisition failed for another reason than required
  interaction) and no error was on display when the attempt started, the error at the
  end of the attempt is the network-class error of the \<open>catch\<close> block.
\<close>

theorem no_token_no_request:
  assumes "trim (input s) \<noteq> []" and "\<not> isLoading s"
    and "fst (acquireToken env) = None"
  shows "filter is_http (sendMessage env s) = [] \<and>
    ((activeAccount env = None \<or> acquireTokenSilent env = SilentOtherError) \<and>
     error s = None \<longrightarrow>
       error (after (sendMessage env s) s) =
         Some \<lparr>type = Network,
           message = ''Network error. Please check your connection.''\<rparr>)"
proof -
  obtain es where tok: "acquireToken env = (None, es)"
    using assms(3) by (cases "acquireToken env") simp
  have "filter is_http es = []"
    using acquireToken_no_http [of env] tok by simp
  then have quiet: "filter is_http (sendMessage env s) = []"
    using assms(1,2) tok
    by (simp add: sendMessage_def try_block_def Let_def catch_block_no_http)
  have "error (after (sendMessage env s) s) =
      Some \<lparr>type = Network, message = ''Network error. Please check your connection.''\<rparr>"
    if "activeAccount env = None \<or> acquireTokenSilent env = SilentOtherError"
      and "error s = None"
  proof -
    have "es = [] \<or> (\<exists>acct. es = [AcquireTokenSilent loginRequest_scopes acct,
        ConsoleError ''Token acquisition error:''])"
      using that(1) tok
      by (auto simp: acquireToken_def split: option.splits)
    then have "after es x = x" for x
      by (auto simp: after_def)
    then show ?thesis
      using assms(1,2) tok that(2)
      by (simp add: sendMessage_def try_block_def Let_def catch_block_def
          after_append after_Cons after_Nil)
  qed
  with quiet show ?thesis
    by blast
qed

theorem no_token_no_request_witness:
  "filter is_http (sendMessage env_no_account s_hello) = [] \<and>
   error (after (sendMessage env_no_account s_hello) s_hello) =
     Some \<lparr>type = Network, message = ''Network error. Please check your connection.''\<rparr> \<and>
   filter is_http (sendMessage env_silent_other s_hello) = [] \<and>
   error (after (sendMessage env_silent_other s_hello) s_hello) =
     Some \<lparr>type = Network, message = ''Network error. Please check your connection.''\<rparr>"
proof -
  have guard: "trim (input s_hello) \<noteq> []" "\<not> isLoading s_hello"
    by (simp_all add: s_hello_def s_initial_def trim_hello)
  have none: "fst (acquireToken env_no_account) = None"
    "fst (acquireToken env_silent_other) = None"
    by (simp_all add: acquireToken_def activeAccount_def env_no_account_def
        env_silent_other_def env_reply_def)
  have why: "activeAccount env_no_account = None \<or>
      acquireTokenSilent env_no_account = SilentOtherError"
    "activeAccount env_silent_other = None \<or>
      acquireTokenSilent env_silent_other = SilentOtherError"
    by (simp_all add: activeAccount_def env_no_account_def env_silent_other_def env_reply_def)
  have clean: "error s_hello = None"
    by (simp add: s_hello_def s_initial_def)
  show ?thesis
    using no_token_no_request [OF guard none(1)] no_token_no_request [OF guard none(2)]
      why clean
    by blast
qed

section \<open>The guard of the catch block\<close>

text \<open>
  C3: the \<open>catch\<close> block tests the error captured when \<open>sendMessage\<close> was created,
  not the error recorded during the attempt. With no error on display, a silent
  acquisition that requires interaction and a popup that fails, the authentication error
  is recorded by \<open>acquireToken\<close> (it is the error after the first eight effects) and
  then replaced by the network error. With an error of an earlier attempt on display and
  a rejected \<open>fetch\<close>, no error is recorded at all: the error ends as none.
\<close>

theorem catch_overwrites_recorded_error:
  "trim (input s_hello) \<noteq> [] \<and> \<not> isLoading s_hello \<and>
   error (after (take 8 (sendMessage env_popup_fail s_hello)) s_hello) =
     Some \<lparr>type = Auth, message = ''Authentication failed. Please sign in again.''\<rparr> \<and>
   drop 8 (sendMessage env_popup_fail s_hello) =
     [ConsoleError ''Chat error:'',
      SetError (Some \<lparr>type = Network,
        message = ''Network error. Please check your connection.''\<rparr>),
      SetIsLoading False, FocusInput] \<and>
   error (after (sendMessage env_popup_fail s_hello) s_hello) =
     Some \<lparr>type = Network, message = ''Network error. Please check your connection.''\<rparr> \<and>
   trim (input s_stale) \<noteq> [] \<and> \<not> isLoading s_stale \<and>
   fetch env_offline = FetchRejected \<and>
   error (after (sendMessage env_offline s_stale) s_stale) = None"
  by (simp add: sendMessage_def try_block_def catch_block_def acquireToken_def
      activeAccount_def env_popup_fail_def env_offline_def env_reply_def
      s_stale_def s_hello_def s_initial_def trim_hello after_def Let_def)

section \<open>Sending without an active account\<close>


end
